theory Spec2Isabelle
  imports Main
begin

section \<open>Python values and exceptions\<close>

text \<open>
  The script \<^verbatim>\<open>fetch-metadata.py\<close> works on strings, on the JSON document that
  \<^verbatim>\<open>json.loads\<close> returns and on the tag tree that \<^verbatim>\<open>BeautifulSoup\<close> returns.
  Every exception that one of its statements can raise is a value here, so that the two
  \<^verbatim>\<open>try\<close>/\<^verbatim>\<open>except Exception\<close> blocks are ordinary case distinctions.
\<close>

datatype py_exception =
    RequestException | ParserError | JSONDecodeError | TypeError | ValueError
  | AttributeError | KeyError | IndexError | OverflowError | UnboundLocalError

text \<open>
  A value produced by \<^verbatim>\<open>json.loads\<close>. Python floats stay abstract (the type
  parameter \<open>'f\<close>); a JSON object is the list of its members, looked up with \<open>map_of\<close>.
\<close>

datatype 'f json =
    JNull | JBool bool | JInt int | JFloat 'f | JStr string
  | JArr "'f json list" | JObj "(string \<times> 'f json) list"

text \<open>Sequencing of statements that may raise: the first exception ends the block.\<close>

definition bind_exc :: "py_exception + 'a \<Rightarrow> ('a \<Rightarrow> py_exception + 'b) \<Rightarrow> py_exception + 'b" where
  "bind_exc m f = (case m of Inl e \<Rightarrow> Inl e | Inr v \<Rightarrow> f v)"

subsection \<open>Strings\<close>

text \<open>\<^verbatim>\<open>s.startswith(p)\<close>\<close>

definition startswith :: "string \<Rightarrow> string \<Rightarrow> bool" where
  "startswith s p = (take (length p) s = p)"

text \<open>\<^verbatim>\<open>sub in s\<close>\<close>

fun str_contains :: "string \<Rightarrow> string \<Rightarrow> bool" where
  "str_contains [] sub = (sub = [])"
| "str_contains (c # cs) sub = (startswith (c # cs) sub \<or> str_contains cs sub)"

text \<open>\<^verbatim>\<open>s.split(sep)\<close> for a separator of one character.\<close>

fun str_split :: "char \<Rightarrow> string \<Rightarrow> string list" where
  "str_split sep [] = [[]]"
| "str_split sep (c # cs) =
     (if c = sep then [] # str_split sep cs
      else (case str_split sep cs of
              [] \<Rightarrow> [[c]]
            | p # ps \<Rightarrow> (c # p) # ps))"

text \<open>\<^verbatim>\<open>xs[i]\<close> for a list and an index that is not negative.\<close>

definition subscript :: "'a list \<Rightarrow> nat \<Rightarrow> py_exception + 'a" where
  "subscript xs i = (if i < length xs then Inr (xs ! i) else Inl IndexError)"

subsection \<open>The tag tree of BeautifulSoup\<close>

datatype node =
    Tag (tag_name: string) (tag_attrs: "(string \<times> string) list") (tag_contents: "node list")
  | NavigableString string

text \<open>All nodes below a tag, in document order.\<close>

fun descendants :: "node \<Rightarrow> node list" where
  "descendants (Tag n a cs) = concat (map (\<lambda>c. c # descendants c) cs)"
| "descendants (NavigableString s) = []"

text \<open>\<^verbatim>\<open>tag.find(...)\<close>: the first descendant that matches, or \<^verbatim>\<open>None\<close>.\<close>

definition find_first :: "(node \<Rightarrow> bool) \<Rightarrow> node \<Rightarrow> node option" where
  "find_first P t = List.find P (descendants t)"

text \<open>\<^verbatim>\<open>find("section")\<close>\<close>

definition is_section :: "node \<Rightarrow> bool" where
  "is_section x = (case x of Tag n a cs \<Rightarrow> n = ''section'' | NavigableString s \<Rightarrow> False)"

text \<open>
  \<^verbatim>\<open>find("a", href=True, attrs={"href": lambda href: href and
  "/store/apps/details?id=" in href})\<close>, read as the comment of line 56 states it: an
  anchor that has an \<^verbatim>\<open>href\<close>, which is not empty and contains the marker.
\<close>

definition is_details_link :: "node \<Rightarrow> bool" where
  "is_details_link x =
     (case x of
        Tag n a cs \<Rightarrow>
          n = ''a'' \<and>
          (case map_of a ''href'' of
             None \<Rightarrow> False
           | Some href \<Rightarrow> href \<noteq> [] \<and> str_contains href ''/store/apps/details?id='')
      | NavigableString s \<Rightarrow> False)"

text \<open>\<^verbatim>\<open>find("script", {"type": "application/ld+json"})\<close>\<close>

definition is_ld_json_script :: "node \<Rightarrow> bool" where
  "is_ld_json_script x =
     (case x of
        Tag n a cs \<Rightarrow> n = ''script'' \<and> map_of a ''type'' = Some ''application/ld+json''
      | NavigableString s \<Rightarrow> False)"

text \<open>\<^verbatim>\<open>tag[key]\<close>\<close>

definition tag_getitem :: "node \<Rightarrow> string \<Rightarrow> py_exception + string" where
  "tag_getitem x key =
     (case x of
        Tag n a cs \<Rightarrow> (case map_of a key of None \<Rightarrow> Inl KeyError | Some v \<Rightarrow> Inr v)
      | NavigableString s \<Rightarrow> Inl TypeError)"

text \<open>
  \<^verbatim>\<open>tag.string\<close>: the text of a tag whose only child is a string (or a tag with that
  property), otherwise \<^verbatim>\<open>None\<close>.
\<close>

fun tag_string :: "node \<Rightarrow> string option" where
  "tag_string (NavigableString s) = Some s"
| "tag_string (Tag n a [c]) = tag_string c"
| "tag_string (Tag n a cs) = None"

section \<open>The libraries the script calls\<close>

record response =
  status_code :: int
  content :: string

text \<open>
  The network and the parsers are parameters. \<open>requests_get\<close> reads and changes the state
  \<open>'w\<close> of the outside world, and raises on a transport failure. \<open>float_of_int\<close> and
  \<open>float_of_str\<close> are \<^verbatim>\<open>float(x)\<close> on an integer and on a string, \<open>round2\<close> is
  \<^verbatim>\<open>round(x, 2)\<close>, \<open>float_is_zero\<close> is the truth value of a float, negated.
\<close>

record ('w, 'f) env =
  requests_get :: "string \<Rightarrow> 'w \<Rightarrow> (py_exception + response) \<times> 'w"
  BeautifulSoup :: "string \<Rightarrow> py_exception + node"
  json_loads :: "string \<Rightarrow> py_exception + 'f json"
  float_of_int :: "int \<Rightarrow> py_exception + 'f"
  float_of_str :: "string \<Rightarrow> py_exception + 'f"
  float_is_zero :: "'f \<Rightarrow> bool"
  round2 :: "'f \<Rightarrow> 'f"

text \<open>The state of a run: the outside world and the URLs requested so far, oldest first.\<close>

type_synonym 'w net = "'w \<times> string list"

definition http_get ::
  "('w, 'f) env \<Rightarrow> string \<Rightarrow> 'w net \<Rightarrow> (py_exception + response) \<times> 'w net" where
  "http_get env url s =
     (case requests_get env url (fst s) of (r, w') \<Rightarrow> (r, (w', snd s @ [url])))"

section \<open>scrape_google_play\<close>

text \<open>The tuple of seven values that \<^verbatim>\<open>scrape_google_play\<close> returns.\<close>

record 'f metadata =
  application_id :: "'f json"
  friendly_name :: "'f json"
  description :: "'f json"
  category :: "'f json"
  content_rating :: "'f json"
  application_rating :: "'f json"
  pricing :: "'f json"

text \<open>\<^verbatim>\<open>(v,) * 7\<close>\<close>

definition tuple7 :: "'f json \<Rightarrow> 'f metadata" where
  "tuple7 v =
     \<lparr>application_id = v, friendly_name = v, description = v, category = v,
      content_rating = v, application_rating = v, pricing = v\<rparr>"

definition search_url :: "string \<Rightarrow> string" where
  "search_url app_name = ''https://play.google.com/store/search?q='' @ app_name @ ''&c=apps''"

definition details_url :: "string \<Rightarrow> string" where
  "details_url app_name =
     ''https://play.google.com/store/apps/details?id='' @ app_name @ ''&hl=en''"

text \<open>
  How the first half of the function ends: with a \<^verbatim>\<open>return\<close>, or by going on to the
  detail fetch with a value of \<^verbatim>\<open>app_name\<close>.
\<close>

datatype 'f flow = Return "'f metadata" | Continue string

text \<open>
  The body of the first \<^verbatim>\<open>try\<close> (lines 50 to 71). A status other than 200 and a page
  without a section have no \<^verbatim>\<open>else\<close> branch: control leaves the block with
  \<^verbatim>\<open>app_name\<close> as it was.
\<close>

definition search_try ::
  "('w, 'f) env \<Rightarrow> string \<Rightarrow> 'w net \<Rightarrow> (py_exception + 'f flow) \<times> 'w net" where
  "search_try env app_name s =
     (case http_get env (search_url app_name) s of
        (Inl e, s1) \<Rightarrow> (Inl e, s1)
      | (Inr search_response, s1) \<Rightarrow>
          (if status_code search_response = 200 then
             (bind_exc (BeautifulSoup env (content search_response)) (\<lambda>search_soup.
                case find_first is_section search_soup of
                  None \<Rightarrow> Inr (Continue app_name)
                | Some section \<Rightarrow>
                    (case find_first is_details_link section of
                       None \<Rightarrow> Inr (Return (tuple7 (JStr ''Not found'')))
                     | Some link \<Rightarrow>
                         bind_exc (tag_getitem link ''href'') (\<lambda>href.
                         bind_exc (subscript (str_split CHR ''='' href) 1) (\<lambda>new_name.
                         Inr (Continue new_name))))), s1)
           else (Inr (Continue app_name), s1)))"

text \<open>Lines 41 to 74: the policy gate, then the search when the name has no dot.\<close>

definition resolve :: "('w, 'f) env \<Rightarrow> string \<Rightarrow> 'w net \<Rightarrow> 'f flow \<times> 'w net" where
  "resolve env app_name s =
     (if startswith app_name ''com.android'' \<and> app_name \<noteq> ''com.android.chrome''
      then (Return (tuple7 (JStr ''Not applicable'')), s)
      else if CHR ''.'' \<notin> set app_name then
        (case search_try env app_name s of
           (Inl e, s1) \<Rightarrow> (Return (tuple7 (JStr ''Not found'')), s1)
         | (Inr fl, s1) \<Rightarrow> (fl, s1))
      else (Continue app_name, s))"

subsection \<open>Reading the structured-data block\<close>

text \<open>\<^verbatim>\<open>d.get(key, default)\<close>: only a dict has the method.\<close>

definition py_get :: "'f json \<Rightarrow> string \<Rightarrow> 'f json \<Rightarrow> py_exception + 'f json" where
  "py_get d key dflt =
     (case d of
        JObj kvs \<Rightarrow> (case map_of kvs key of None \<Rightarrow> Inr dflt | Some v \<Rightarrow> Inr v)
      | _ \<Rightarrow> Inl AttributeError)"

text \<open>The truth value of a JSON value in a condition.\<close>

definition truthy :: "('w, 'f) env \<Rightarrow> 'f json \<Rightarrow> bool" where
  "truthy env v =
     (case v of
        JNull \<Rightarrow> False
      | JBool b \<Rightarrow> b
      | JInt i \<Rightarrow> i \<noteq> 0
      | JFloat x \<Rightarrow> \<not> float_is_zero env x
      | JStr s \<Rightarrow> s \<noteq> []
      | JArr xs \<Rightarrow> xs \<noteq> []
      | JObj kvs \<Rightarrow> kvs \<noteq> [])"

text \<open>\<^verbatim>\<open>float(v)\<close>\<close>

definition py_float :: "('w, 'f) env \<Rightarrow> 'f json \<Rightarrow> py_exception + 'f" where
  "py_float env v =
     (case v of
        JNull \<Rightarrow> Inl TypeError
      | JBool b \<Rightarrow> float_of_int env (if b then 1 else 0)
      | JInt i \<Rightarrow> float_of_int env i
      | JFloat x \<Rightarrow> Inr x
      | JStr s \<Rightarrow> float_of_str env s
      | JArr xs \<Rightarrow> Inl TypeError
      | JObj kvs \<Rightarrow> Inl TypeError)"

text \<open>
  \<^verbatim>\<open>round(float(aggregate_rating.get("ratingValue")), 2) if aggregate_rating else
  "Not Found"\<close>
\<close>

definition rating_of :: "('w, 'f) env \<Rightarrow> 'f json \<Rightarrow> py_exception + 'f json" where
  "rating_of env aggregate_rating =
     (if truthy env aggregate_rating then
        bind_exc (py_get aggregate_rating ''ratingValue'' JNull) (\<lambda>v.
        bind_exc (py_float env v) (\<lambda>x.
        Inr (JFloat (round2 env x))))
      else Inr (JStr ''Not Found''))"

text \<open>\<^verbatim>\<open>offers[0]\<close>: the subscript of a list, a string, a dict or anything else.\<close>

definition offers_first :: "'f json \<Rightarrow> py_exception + 'f json" where
  "offers_first offers =
     (case offers of
        JArr xs \<Rightarrow> subscript xs 0
      | JStr s \<Rightarrow> bind_exc (subscript s 0) (\<lambda>c. Inr (JStr [c]))
      | JObj kvs \<Rightarrow> Inl KeyError
      | _ \<Rightarrow> Inl TypeError)"

text \<open>\<^verbatim>\<open>offers[0].get("price", "Not Found") if offers else "Not Found"\<close>\<close>

definition pricing_of :: "('w, 'f) env \<Rightarrow> 'f json \<Rightarrow> py_exception + 'f json" where
  "pricing_of env offers =
     (if truthy env offers then
        bind_exc (offers_first offers) (\<lambda>offer. py_get offer ''price'' (JStr ''Not Found''))
      else Inr (JStr ''Not Found''))"

text \<open>\<^verbatim>\<open>json.loads(script_tag.string)\<close>: a tag without a single string gives \<^verbatim>\<open>None\<close>.\<close>

definition loads_script :: "('w, 'f) env \<Rightarrow> node \<Rightarrow> py_exception + 'f json" where
  "loads_script env script_tag =
     (case tag_string script_tag of
        None \<Rightarrow> Inl TypeError
      | Some txt \<Rightarrow> json_loads env txt)"

text \<open>Lines 86 to 100, then the tuple of the \<^verbatim>\<open>return\<close> in line 104.\<close>

definition extract_fields ::
  "('w, 'f) env \<Rightarrow> string \<Rightarrow> node \<Rightarrow> py_exception + 'f metadata" where
  "extract_fields env app_name script_tag =
     bind_exc (loads_script env script_tag) (\<lambda>data.
     bind_exc (py_get data ''name'' (JStr ''Not Found'')) (\<lambda>fname.
     bind_exc (py_get data ''description'' (JStr ''Not Found'')) (\<lambda>descr.
     bind_exc (py_get data ''applicationCategory'' (JStr ''Not Found'')) (\<lambda>cat.
     bind_exc (py_get data ''contentRating'' (JStr ''Not Found'')) (\<lambda>crating.
     bind_exc (py_get data ''aggregateRating'' (JObj [])) (\<lambda>aggregate_rating.
     bind_exc (rating_of env aggregate_rating) (\<lambda>arating.
     bind_exc (py_get data ''offers'' (JArr [])) (\<lambda>offers.
     bind_exc (pricing_of env offers) (\<lambda>price.
     Inr \<lparr>application_id = JStr app_name, friendly_name = fname, description = descr,
          category = cat, content_rating = crating, application_rating = arating,
          pricing = price\<rparr>)))))))))"

text \<open>
  The body of the second \<^verbatim>\<open>try\<close> (lines 79 to 117). Without a script tag nothing has
  been assigned when line 104 builds the tuple: reading \<^verbatim>\<open>application_id\<close> raises
  \<^verbatim>\<open>UnboundLocalError\<close>.
\<close>

definition fetch_try ::
  "('w, 'f) env \<Rightarrow> string \<Rightarrow> 'w net \<Rightarrow> (py_exception + 'f metadata) \<times> 'w net" where
  "fetch_try env app_name s =
     (case http_get env (details_url app_name) s of
        (Inl e, s1) \<Rightarrow> (Inl e, s1)
      | (Inr resp, s1) \<Rightarrow>
          (if status_code resp = 200 then
             (bind_exc (BeautifulSoup env (content resp)) (\<lambda>soup.
                case find_first is_ld_json_script soup of
                  None \<Rightarrow> Inl UnboundLocalError
                | Some script_tag \<Rightarrow> extract_fields env app_name script_tag), s1)
           else (Inr (tuple7 (JStr ''Not found'')), s1)))"

text \<open>
  The whole function. Its result may be an exception, as that of any Python function;
  both handlers turn what their block raises into the tuple of seven \<^verbatim>\<open>"Not found"\<close>.
\<close>

definition scrape_google_play ::
  "('w, 'f) env \<Rightarrow> string \<Rightarrow> 'w net \<Rightarrow> (py_exception + 'f metadata) \<times> 'w net" where
  "scrape_google_play env app_name s =
     (case resolve env app_name s of
        (Return r, s1) \<Rightarrow> (Inr r, s1)
      | (Continue name, s1) \<Rightarrow>
          (case fetch_try env name s1 of
             (Inl e, s2) \<Rightarrow> (Inr (tuple7 (JStr ''Not found'')), s2)
           | (Inr r, s2) \<Rightarrow> (Inr r, s2)))"

section \<open>load_and_process_excel\<close>


text \<open>\<^verbatim>\<open>df.head(n)\<close>: the first \<open>n\<close> rows, or all but the last \<open>-n\<close> when \<open>n\<close> is negative.\<close>

definition head :: "int \<Rightarrow> 'a list \<Rightarrow> 'a list" where
  "head n xs = (if 0 \<le> n then take (nat n) xs else take (length xs - nat (- n)) xs)"







section \<open>Notions used to state the properties\<close>





text \<open>
  The identifier in the words of the specification, section 4.1: the value of the
  \<^verbatim>\<open>id\<close> query parameter of the URL. The query is what follows the first question
  mark; its parameters are separated by ampersands, a name from its value by the first
  equals sign.
\<close>

definition spec_query_parameter :: "string \<Rightarrow> string \<Rightarrow> string option" where
  "spec_query_parameter key url =
     map_of
       (map (\<lambda>p. (takeWhile (\<lambda>c. c \<noteq> CHR ''='') p, drop 1 (dropWhile (\<lambda>c. c \<noteq> CHR ''='') p)))
          (str_split CHR ''&'' (drop 1 (dropWhile (\<lambda>c. c \<noteq> CHR ''?'') url))))
       key"



section \<open>A small store for concrete runs\<close>

text \<open>
  A fixed network, with parsers that know its pages: the concrete inputs of the runs
  below. The world has no state. A float is a number of ten-thousandths, so \<open>43456\<close> is
  4.3456, and rounding to two places yields a multiple of 100.
\<close>

definition json_full :: string where
  \<open>json_full = ''{"name": "WhatsApp Messenger", "description": "Simple. Reliable. Private.", "applicationCategory": "COMMUNICATION", "contentRating": "Everyone", "aggregateRating": {"ratingValue": "4.3456"}, "offers": [{"price": "0"}]}''\<close>

definition json_broken :: string where
  \<open>json_broken = ''{"name": "Broken''\<close>

definition json_beta :: string where
  \<open>json_beta = ''{"name": "Beta", "aggregateRating": {"ratingValue": "n/a"}}''\<close>

definition json_gamma :: string where
  \<open>json_gamma = ''{"name": "Gamma", "aggregateRating": {"ratingCount": 12}}''\<close>

definition json_delta :: string where
  \<open>json_delta = ''{"name": "Delta", "offers": [{"price": "1.99"}]}''\<close>

definition json_epsilon :: string where
  \<open>json_epsilon = ''{"name": "Epsilon", "offers": [{"availability": "InStock"}]}''\<close>

definition doc_full :: "(string \<times> int json) list" where
  "doc_full =
     [(''name'', JStr ''WhatsApp Messenger''),
      (''description'', JStr ''Simple. Reliable. Private.''),
      (''applicationCategory'', JStr ''COMMUNICATION''),
      (''contentRating'', JStr ''Everyone''),
      (''aggregateRating'', JObj [(''ratingValue'', JStr ''4.3456'')]),
      (''offers'', JArr [JObj [(''price'', JStr ''0'')]])]"

definition doc_beta :: "(string \<times> int json) list" where
  "doc_beta =
     [(''name'', JStr ''Beta''), (''aggregateRating'', JObj [(''ratingValue'', JStr ''n/a'')])]"

definition doc_gamma :: "(string \<times> int json) list" where
  "doc_gamma =
     [(''name'', JStr ''Gamma''), (''aggregateRating'', JObj [(''ratingCount'', JInt 12)])]"

definition doc_delta :: "(string \<times> int json) list" where
  "doc_delta =
     [(''name'', JStr ''Delta''), (''offers'', JArr [JObj [(''price'', JStr ''1.99'')]])]"

definition doc_epsilon :: "(string \<times> int json) list" where
  "doc_epsilon =
     [(''name'', JStr ''Epsilon''),
      (''offers'', JArr [JObj [(''availability'', JStr ''InStock'')]])]"

definition demo_documents :: "(string \<times> int json) list" where
  "demo_documents =
     [(json_full, JObj doc_full), (json_beta, JObj doc_beta), (json_gamma, JObj doc_gamma),
      (json_delta, JObj doc_delta), (json_epsilon, JObj doc_epsilon)]"

definition html_app :: "string \<Rightarrow> string" where
  "html_app txt =
     ''<html><head><script type=application/ld+json>'' @ txt @ ''</script></head></html>''"

definition soup_app :: "string \<Rightarrow> node" where
  "soup_app txt =
     Tag ''[document]'' []
       [Tag ''html'' []
          [Tag ''head'' []
             [Tag ''script'' [(''type'', ''application/ld+json'')] [NavigableString txt]]]]"

definition html_empty :: string where
  "html_empty = ''<html><body><p>Sorry</p></body></html>''"

definition soup_empty :: node where
  "soup_empty =
     Tag ''[document]'' []
       [Tag ''html'' [] [Tag ''body'' [] [Tag ''p'' [] [NavigableString ''Sorry'']]]]"

definition html_results :: string where
  "html_results =
     ''<html><body><section><a name=top>Apps</a>'' @
     ''<a href=/store/apps/details?id=org.signal&hl=en>Signal</a>'' @
     ''<a href=/store/apps/details?id=org.other>Other</a></section></body></html>''"

definition soup_results :: node where
  "soup_results =
     Tag ''[document]'' []
       [Tag ''html'' []
          [Tag ''body'' []
             [Tag ''section'' []
                [Tag ''a'' [(''name'', ''top'')] [NavigableString ''Apps''],
                 Tag ''a'' [(''href'', ''/store/apps/details?id=org.signal&hl=en'')]
                   [NavigableString ''Signal''],
                 Tag ''a'' [(''href'', ''/store/apps/details?id=org.other'')]
                   [NavigableString ''Other'']]]]]"

definition demo_pages :: "(string \<times> node) list" where
  "demo_pages =
     [(html_app json_full, soup_app json_full),
      (html_app json_broken, soup_app json_broken),
      (html_app json_beta, soup_app json_beta),
      (html_app json_gamma, soup_app json_gamma),
      (html_app json_delta, soup_app json_delta),
      (html_app json_epsilon, soup_app json_epsilon),
      (html_empty, soup_empty),
      (html_results, soup_results)]"

definition demo_responses :: "(string \<times> (py_exception + response)) list" where
  "demo_responses =
     [(search_url ''whatsapp'', Inr \<lparr>status_code = 503, content = []\<rparr>),
      (details_url ''whatsapp'', Inr \<lparr>status_code = 200, content = html_app json_full\<rparr>),
      (search_url ''viber'', Inr \<lparr>status_code = 200, content = html_empty\<rparr>),
      (details_url ''viber'', Inr \<lparr>status_code = 200, content = html_app json_full\<rparr>),
      (search_url ''signal'', Inr \<lparr>status_code = 200, content = html_results\<rparr>),
      (search_url ''offline'', Inl RequestException),
      (details_url ''org.signal&hl'', Inr \<lparr>status_code = 200, content = html_app json_full\<rparr>),
      (details_url ''com.example.bare'', Inr \<lparr>status_code = 200, content = html_empty\<rparr>),
      (details_url ''com.whatsapp'', Inr \<lparr>status_code = 200, content = html_app json_full\<rparr>),
      (details_url ''com.example.broken'',
         Inr \<lparr>status_code = 200, content = html_app json_broken\<rparr>),
      (details_url ''com.example.beta'', Inr \<lparr>status_code = 200, content = html_app json_beta\<rparr>),
      (details_url ''com.example.gamma'',
         Inr \<lparr>status_code = 200, content = html_app json_gamma\<rparr>),
      (details_url ''com.example.delta'',
         Inr \<lparr>status_code = 200, content = html_app json_delta\<rparr>),
      (details_url ''com.example.epsilon'',
         Inr \<lparr>status_code = 200, content = html_app json_epsilon\<rparr>)]"

definition demo_env :: "(unit, int) env" where
  "demo_env =
     \<lparr>requests_get = (\<lambda>url w.
        (case map_of demo_responses url of
           None \<Rightarrow> Inr \<lparr>status_code = 404, content = []\<rparr>
         | Some r \<Rightarrow> r, w)),
      BeautifulSoup = (\<lambda>body.
        case map_of demo_pages body of
          None \<Rightarrow> Inr (Tag ''[document]'' [] [])
        | Some soup \<Rightarrow> Inr soup),
      json_loads = (\<lambda>txt.
        case map_of demo_documents txt of None \<Rightarrow> Inl JSONDecodeError | Some v \<Rightarrow> Inr v),
      float_of_int = (\<lambda>i. Inr (i * 10000)),
      float_of_str = (\<lambda>txt. if txt = ''4.3456'' then Inr 43456 else Inl ValueError),
      float_is_zero = (\<lambda>x. x = 0),
      round2 = (\<lambda>x. (x + 50) div 100 * 100)\<rparr>"

section \<open>Auxiliary facts\<close>




lemma snd_http_get: "snd (snd (http_get env url s)) = snd s @ [url]"
  by (simp add: http_get_def split: prod.splits)

lemma snd_fetch_try: "snd (snd (fetch_try env name s)) = snd s @ [details_url name]"
proof -
  obtain r s1 where h: "http_get env (details_url name) s = (r, s1)"
    by (cases "http_get env (details_url name) s")
  have "snd s1 = snd s @ [details_url name]"
    using snd_http_get [of env "details_url name" s] h by simp
  then show ?thesis
    by (simp add: fetch_try_def h split: sum.splits)
qed

lemma http_get_eq:
  "requests_get env url (fst s) = (r, w2) \<Longrightarrow> http_get env url s = (r, (w2, snd s @ [url]))"
  by (simp add: http_get_def)




























section \<open>The claims\<close>

subsection \<open>The policy gate and names with a dot\<close>

text \<open>
  C5: for every input that begins with \<^verbatim>\<open>com.android\<close> and is not
  \<^verbatim>\<open>com.android.chrome\<close>, the function returns seven times \<^verbatim>\<open>"Not applicable"\<close>
  and makes no network call: the world and the list of requested URLs are as before.
\<close>

theorem reserved_namespace_not_applicable:
  assumes "startswith app_name ''com.android''"
    and "app_name \<noteq> ''com.android.chrome''"
  shows "scrape_google_play env app_name s = (Inr (tuple7 (JStr ''Not applicable'')), s)"
  using assms by (simp add: scrape_google_play_def resolve_def)

text \<open>The gate at \<^verbatim>\<open>com.android.settings\<close>, in the small store.\<close>

theorem reserved_namespace_not_applicable_witness:
  "startswith ''com.android.settings'' ''com.android''
   \<and> ''com.android.settings'' \<noteq> ''com.android.chrome''
   \<and> scrape_google_play demo_env ''com.android.settings'' ((), [])
       = (Inr (tuple7 (JStr ''Not applicable'')), ((), []))"
proof -
  have h1: "startswith ''com.android.settings'' ''com.android''"
    by code_simp
  have h2: "''com.android.settings'' \<noteq> ''com.android.chrome''"
    by simp
  from reserved_namespace_not_applicable [OF h1 h2, of demo_env "((), [])"] h1 h2
  show ?thesis by simp
qed

text \<open>
  C6: for every input that contains a dot and is not stopped by the gate, the first
  half of the function makes no request and hands the input on unchanged, and the only
  request of the whole run is the detail fetch, whose URL carries the input.
\<close>

theorem dotted_name_only_detail_fetch:
  assumes "CHR ''.'' \<in> set app_name"
    and "\<not> (startswith app_name ''com.android'' \<and> app_name \<noteq> ''com.android.chrome'')"
  shows "resolve env app_name s = (Continue app_name, s)
         \<and> snd (snd (scrape_google_play env app_name s)) = snd s @ [details_url app_name]"
proof -
  have r: "resolve env app_name s = (Continue app_name, s)"
    using assms by (auto simp add: resolve_def)
  obtain x s2 where f: "fetch_try env app_name s = (x, s2)"
    by (cases "fetch_try env app_name s")
  have "snd s2 = snd s @ [details_url app_name]"
    using snd_fetch_try [of env app_name s] f by simp
  then show ?thesis
    by (simp add: scrape_google_play_def r f split: sum.splits)
qed

text \<open>The run on \<^verbatim>\<open>com.whatsapp\<close> requests one URL.\<close>

theorem dotted_name_only_detail_fetch_witness:
  "CHR ''.'' \<in> set ''com.whatsapp''
   \<and> \<not> (startswith ''com.whatsapp'' ''com.android'' \<and> ''com.whatsapp'' \<noteq> ''com.android.chrome'')
   \<and> resolve demo_env ''com.whatsapp'' ((), []) = (Continue ''com.whatsapp'', ((), []))
   \<and> snd (snd (scrape_google_play demo_env ''com.whatsapp'' ((), [])))
       = [''https://play.google.com/store/apps/details?id=com.whatsapp&hl=en'']"
proof -
  have h1: "CHR ''.'' \<in> set ''com.whatsapp''"
    by simp
  have h2: "\<not> (startswith ''com.whatsapp'' ''com.android'' \<and> ''com.whatsapp'' \<noteq> ''com.android.chrome'')"
    by (simp add: startswith_def)
  from dotted_name_only_detail_fetch [OF h1 h2, of demo_env "((), [])"] h1 h2
  show ?thesis by (simp add: details_url_def)
qed

subsection \<open>The search\<close>

text \<open>
  C1, at a failing input. The search for \<^verbatim>\<open>whatsapp\<close> is answered with status 503,
  the search for \<^verbatim>\<open>viber\<close> with a page that has no section. In both runs the
  function goes on to the detail fetch with the query as the identifier, and returns what
  that page holds instead of seven times \<^verbatim>\<open>"Not found"\<close>.
\<close>

theorem failed_search_goes_on_to_detail_fetch:
  "scrape_google_play demo_env ''whatsapp'' ((), []) =
     (Inr \<lparr>application_id = JStr ''whatsapp'', friendly_name = JStr ''WhatsApp Messenger'',
           description = JStr ''Simple. Reliable. Private.'', category = JStr ''COMMUNICATION'',
           content_rating = JStr ''Everyone'', application_rating = JFloat 43500,
           pricing = JStr ''0''\<rparr>,
      ((), [search_url ''whatsapp'', details_url ''whatsapp'']))
   \<and> scrape_google_play demo_env ''viber'' ((), []) =
     (Inr \<lparr>application_id = JStr ''viber'', friendly_name = JStr ''WhatsApp Messenger'',
           description = JStr ''Simple. Reliable. Private.'', category = JStr ''COMMUNICATION'',
           content_rating = JStr ''Everyone'', application_rating = JFloat 43500,
           pricing = JStr ''0''\<rparr>,
      ((), [search_url ''viber'', details_url ''viber'']))"
  by code_simp

text \<open>
  C4, at a failing input. The first anchor of the section that has an \<^verbatim>\<open>href\<close>,
  which contains the marker, is \<^verbatim>\<open>/store/apps/details?id=org.signal&hl=en\<close>. Its \<^verbatim>\<open>id\<close>
  parameter is \<^verbatim>\<open>org.signal\<close>; the function takes the text between the first two
  equals signs, \<^verbatim>\<open>org.signal&hl\<close>, and returns it as the application ID.
\<close>

theorem identifier_is_text_between_equals_signs:
  "find_first is_details_link soup_results =
     Some (Tag ''a'' [(''href'', ''/store/apps/details?id=org.signal&hl=en'')]
             [NavigableString ''Signal''])
   \<and> spec_query_parameter ''id'' ''/store/apps/details?id=org.signal&hl=en'' = Some ''org.signal''
   \<and> resolve demo_env ''signal'' ((), []) = (Continue ''org.signal&hl'', ((), [search_url ''signal'']))
   \<and> application_id (projr (fst (scrape_google_play demo_env ''signal'' ((), []))))
       = JStr ''org.signal&hl''"
  by code_simp

subsection \<open>The detail fetch\<close>

text \<open>
  C7: when the detail fetch raises, or returns a status other than 200, the function
  returns seven times \<^verbatim>\<open>"Not found"\<close>, the application ID included.
\<close>

theorem failed_detail_fetch_not_found:
  assumes "resolve env app_name s = (Continue ident, s1)"
    and "requests_get env (details_url ident) (fst s1) = (r, w2)"
    and "(\<exists>e. r = Inl e) \<or> (\<exists>resp. r = Inr resp \<and> status_code resp \<noteq> 200)"
  shows "fst (scrape_google_play env app_name s) = Inr (tuple7 (JStr ''Not found''))"
  using assms(3)
  by (auto simp add: scrape_google_play_def assms(1) fetch_try_def http_get_eq [OF assms(2)])

text \<open>The store has no page for \<^verbatim>\<open>com.example.gone\<close>: status 404.\<close>

theorem failed_detail_fetch_not_found_witness:
  "resolve demo_env ''com.example.gone'' ((), []) = (Continue ''com.example.gone'', ((), []))
   \<and> requests_get demo_env (details_url ''com.example.gone'') ()
       = (Inr \<lparr>status_code = 404, content = []\<rparr>, ())
   \<and> fst (scrape_google_play demo_env ''com.example.gone'' ((), []))
       = Inr (tuple7 (JStr ''Not found''))"
proof -
  have h1: "resolve demo_env ''com.example.gone'' ((), []) = (Continue ''com.example.gone'', ((), []))"
    by code_simp
  have h2: "requests_get demo_env (details_url ''com.example.gone'') (fst ((), []))
              = (Inr \<lparr>status_code = 404, content = []\<rparr>, ())"
    by code_simp
  have h3: "(\<exists>e. (Inr \<lparr>status_code = 404, content = []\<rparr> :: py_exception + response) = Inl e)
            \<or> (\<exists>resp. (Inr \<lparr>status_code = 404, content = []\<rparr> :: py_exception + response) = Inr resp
                  \<and> status_code resp \<noteq> 200)"
    by simp
  from failed_detail_fetch_not_found [OF h1 h2 h3] h1 h2
  show ?thesis by simp
qed




subsection \<open>The fields of the structured-data block\<close>








subsection \<open>Exceptions\<close>



subsection \<open>The rows of the sheet\<close>




end
